theory Spec2Isabelle
  imports Complex_Main "HOL-Library.AList" "HOL-Library.Monad_Syntax"
begin

section \<open>JavaScript values\<close>

text \<open>
  The converters of \<^verbatim>\<open>pixelfed/api_client.ts\<close> run on the parsed body of a
  response. TypeScript's types are erased at run time, and the converters test the
  values they read (\<^verbatim>\<open>Array.isArray\<close>, truthiness), so a backend entity is modelled
  as the JavaScript value it is: an object is the list of its own properties in
  insertion order, a missing property reads as \<^verbatim>\<open>undefined\<close>.
\<close>

datatype jsval =
    JUndefined
  | JNull
  | JBool bool
  | JNum rat
  | JStr string
  | JArr "jsval list"
  | JObj "(string \<times> jsval) list"

text \<open>
  \<^verbatim>\<open>v.k\<close> on a value that is neither \<^verbatim>\<open>null\<close> nor \<^verbatim>\<open>undefined\<close>. None of the
  property names the converters read is defined on the prototype of a primitive
  value or of an array, so those read as \<^verbatim>\<open>undefined\<close>.
\<close>

fun property :: "jsval \<Rightarrow> string \<Rightarrow> jsval" where
  "property (JObj kvs) k = (case map_of kvs k of Some v \<Rightarrow> v | None \<Rightarrow> JUndefined)"
| "property _ k = JUndefined"

text \<open>Reading a property of \<^verbatim>\<open>null\<close> or \<^verbatim>\<open>undefined\<close> throws a TypeError.\<close>

fun nullish :: "jsval \<Rightarrow> bool" where
  "nullish JUndefined = True"
| "nullish JNull = True"
| "nullish _ = False"

text \<open>The own property \<^verbatim>\<open>k\<close> of an object, \<open>None\<close> when the object has no such key.\<close>

fun own :: "jsval \<Rightarrow> string \<Rightarrow> jsval option" where
  "own (JObj kvs) k = map_of kvs k"
| "own _ k = None"

text \<open>\<^verbatim>\<open>Object.keys\<close>.\<close>

fun keys :: "jsval \<Rightarrow> string list" where
  "keys (JObj kvs) = map fst kvs"
| "keys _ = []"

text \<open>The condition of \<^verbatim>\<open>v ? a : b\<close> and of \<^verbatim>\<open>if (v)\<close>.\<close>

fun truthy :: "jsval \<Rightarrow> bool" where
  "truthy JUndefined = False"
| "truthy JNull = False"
| "truthy (JBool b) = b"
| "truthy (JNum n) = (n \<noteq> 0)"
| "truthy (JStr s) = (s \<noteq> [])"
| "truthy (JArr xs) = True"
| "truthy (JObj kvs) = True"

text \<open>\<^verbatim>\<open>Array.isArray\<close>.\<close>

fun isArray :: "jsval \<Rightarrow> bool" where
  "isArray (JArr xs) = True"
| "isArray _ = False"

text \<open>The elements of an array; a value that is not an array has none.\<close>

fun elements :: "jsval \<Rightarrow> jsval list" where
  "elements (JArr xs) = xs"
| "elements _ = []"

text \<open>
  \<^verbatim>\<open>Array.isArray(v) ? v.map(x => f(x)) : []\<close>, where \<open>f\<close> may throw
  (\<open>None\<close>): the map throws at the first element on which \<open>f\<close> does.
\<close>

definition map_array :: "(jsval \<Rightarrow> jsval option) \<Rightarrow> jsval \<Rightarrow> jsval option" where
  "map_array f v =
     (case v of JArr xs \<Rightarrow> map_option JArr (those (map f xs)) | _ \<Rightarrow> Some (JArr []))"

section \<open>Enumeration mapper\<close>

text \<open>
  The constants of the namespaces \<^verbatim>\<open>NotificationType\<close> (\<^verbatim>\<open>../notification\<close>) and
  \<^verbatim>\<open>PixelfedNotificationType\<close> (\<^verbatim>\<open>./notification\<close>) are string constants declared
  outside the files at hand. The five members the converter names are taken as a
  parameter, one table for each namespace.
\<close>

record notification_consts =
  Follow :: string
  Favourite :: string
  Reblog :: string
  Mention :: string
  FollowRequest :: string

definition members :: "notification_consts \<Rightarrow> string list" where
  "members T = [Follow T, Favourite T, Reblog T, Mention T, FollowRequest T]"

text \<open>The marker class: \<^verbatim>\<open>new UnknownNotificationTypeError()\<close> is returned, not thrown.\<close>

datatype UnknownNotificationTypeError = UnknownNotificationTypeError

text \<open>
  \<open>N\<close> is \<^verbatim>\<open>NotificationType\<close>, \<open>P\<close> is \<^verbatim>\<open>PixelfedNotificationType\<close>. A
  \<^verbatim>\<open>switch\<close> compares with \<^verbatim>\<open>===\<close> and takes the first matching case.
\<close>

definition encodeNotificationType ::
  "notification_consts \<Rightarrow> notification_consts \<Rightarrow> jsval \<Rightarrow> UnknownNotificationTypeError + jsval" where
  "encodeNotificationType N P t =
     (if t = JStr (Follow N) then Inr (JStr (Follow P))
      else if t = JStr (Favourite N) then Inr (JStr (Favourite P))
      else if t = JStr (Reblog N) then Inr (JStr (Reblog P))
      else if t = JStr (Mention N) then Inr (JStr (Mention P))
      else if t = JStr (FollowRequest N) then Inr (JStr (FollowRequest P))
      else Inl UnknownNotificationTypeError)"

definition decodeNotificationType ::
  "notification_consts \<Rightarrow> notification_consts \<Rightarrow> jsval \<Rightarrow> UnknownNotificationTypeError + jsval" where
  "decodeNotificationType N P t =
     (if t = JStr (Follow P) then Inr (JStr (Follow N))
      else if t = JStr (Favourite P) then Inr (JStr (Favourite N))
      else if t = JStr (Mention P) then Inr (JStr (Mention N))
      else if t = JStr (Reblog P) then Inr (JStr (Reblog N))
      else if t = JStr (FollowRequest P) then Inr (JStr (FollowRequest N))
      else Inl UnknownNotificationTypeError)"

section \<open>Entity converter\<close>

text \<open>
  A converter returns \<open>None\<close> when it throws a TypeError, which it does exactly when
  it reads a property of \<^verbatim>\<open>null\<close> or \<^verbatim>\<open>undefined\<close>. An object literal evaluates its
  properties in order, so the first read decides; the later reads of the same value
  cannot throw.
\<close>

definition account :: "jsval \<Rightarrow> jsval option" where
  "account a =
     (if nullish a then None
      else Some (JObj
        [(''id'', property a ''id''),
         (''username'', property a ''username''),
         (''acct'', property a ''acct''),
         (''display_name'', property a ''display_name''),
         (''locked'', property a ''locked''),
         (''discoverable'', property a ''discoverable''),
         (''group'', JNull),
         (''noindex'', JNull),
         (''suspended'', JNull),
         (''limited'', JNull),
         (''created_at'', property a ''created_at''),
         (''followers_count'', property a ''followers_count''),
         (''following_count'', property a ''following_count''),
         (''statuses_count'', property a ''statuses_count''),
         (''note'', property a ''note''),
         (''url'', property a ''url''),
         (''avatar'', property a ''avatar''),
         (''avatar_static'', property a ''avatar_static''),
         (''header'', property a ''header''),
         (''header_static'', property a ''header_static''),
         (''emojis'', property a ''emojis''),
         (''moved'', JNull),
         (''fields'', property a ''fields''),
         (''bot'', JNull),
         (''source'', property a ''source'')]))"

text \<open>The converters that return their argument.\<close>

definition application :: "jsval \<Rightarrow> jsval" where
  "application a = a"

definition attachment :: "jsval \<Rightarrow> jsval" where
  "attachment a = a"

definition emoji :: "jsval \<Rightarrow> jsval" where
  "emoji e = e"

definition mention :: "jsval \<Rightarrow> jsval" where
  "mention m = m"

definition poll :: "jsval \<Rightarrow> jsval" where
  "poll p = p"

definition tag :: "jsval \<Rightarrow> jsval" where
  "tag t = t"

text \<open>
  The object literal that \<^verbatim>\<open>status\<close> returns, given the status \<open>s\<close> and
  the values of the five properties that are computed by a call: \<^verbatim>\<open>account\<close>,
  \<^verbatim>\<open>reblog\<close>, \<^verbatim>\<open>emojis\<close>, \<^verbatim>\<open>media_attachments\<close> and \<^verbatim>\<open>mentions\<close>.
\<close>

definition status_literal :: "jsval \<Rightarrow> jsval \<Rightarrow> jsval \<Rightarrow> jsval \<Rightarrow> jsval \<Rightarrow> jsval \<Rightarrow> jsval" where
  "status_literal s account_c reblog_c emojis_c media_attachments_c mentions_c =
     JObj
       [(''id'', property s ''id''),
        (''uri'', property s ''uri''),
        (''url'', property s ''url''),
        (''account'', account_c),
        (''in_reply_to_id'', property s ''in_reply_to_id''),
        (''in_reply_to_account_id'', property s ''in_reply_to_account_id''),
        (''reblog'', reblog_c),
        (''content'', property s ''content''),
        (''plain_content'', JNull),
        (''created_at'', property s ''created_at''),
        (''edited_at'', property s ''edited_at''),
        (''emojis'', emojis_c),
        (''replies_count'', property s ''replies_count''),
        (''reblogs_count'', property s ''reblogs_count''),
        (''favourites_count'', property s ''favourites_count''),
        (''reblogged'', property s ''reblogged''),
        (''favourited'', property s ''favourited''),
        (''muted'', property s ''muted''),
        (''sensitive'', property s ''sensitive''),
        (''spoiler_text'', property s ''spoiler_text''),
        (''visibility'', property s ''visibility''),
        (''media_attachments'', media_attachments_c),
        (''mentions'', mentions_c),
        (''tags'', property s ''tags''),
        (''card'', JNull),
        (''poll'', if truthy (property s ''poll'') then poll (property s ''poll'') else JNull),
        (''application'',
           if truthy (property s ''application'') then application (property s ''application'')
           else JNull),
        (''language'', property s ''language''),
        (''pinned'', JBool False),
        (''emoji_reactions'', JArr []),
        (''bookmarked'',
           if truthy (property s ''bookmarked'') then property s ''bookmarked'' else JBool False),
        (''quote'', JBool False)]"

text \<open>
  \<^verbatim>\<open>status\<close> calls itself on \<^verbatim>\<open>s.reblog\<close> when that value is truthy; the
  recursion follows the nesting of the input. The calls are made in the order of
  the properties of the literal.
\<close>

function status :: "jsval \<Rightarrow> jsval option" where
  "status s =
     (if nullish s then None
      else do {
        account_c \<leftarrow> account (property s ''account'');
        reblog_c \<leftarrow> (if truthy (property s ''reblog'') then status (property s ''reblog'') else Some JNull);
        emojis_c \<leftarrow> map_array (\<lambda>e. Some (emoji e)) (property s ''emojis'');
        media_attachments_c \<leftarrow> map_array (\<lambda>m. Some (attachment m)) (property s ''media_attachments'');
        mentions_c \<leftarrow> map_array (\<lambda>m. Some (mention m)) (property s ''mentions'');
        Some (status_literal s account_c reblog_c emojis_c media_attachments_c mentions_c)
      })"
  by pat_completeness auto
termination
proof -
  have smaller: "size (property s k) < size s" if t: "truthy (property s k)" for s k
  proof (cases s)
    case (JObj kvs)
    have "map_of kvs k = Some v \<Longrightarrow> size v < Suc (size_list (size_prod (\<lambda>_. 0) size) kvs)" for v
      by (induction kvs) (auto split: if_splits)
    with JObj t show ?thesis
      by (auto split: option.splits)
  qed (use t in simp_all)
  show ?thesis
    by (relation "measure size") (auto simp: smaller)
qed

declare status.simps [simp del]

definition context_entity :: "jsval \<Rightarrow> jsval option" where
  \<comment> \<open>\<^verbatim>\<open>Converter.context\<close>\<close>
  "context_entity c =
     (if nullish c then None
      else do {
        ancestors_c \<leftarrow> map_array status (property c ''ancestors'');
        descendants_c \<leftarrow> map_array status (property c ''descendants'');
        Some (JObj [(''ancestors'', ancestors_c), (''descendants'', descendants_c)])
      })"

definition conversation :: "jsval \<Rightarrow> jsval option" where
  "conversation c =
     (if nullish c then None
      else do {
        accounts_c \<leftarrow> map_array account (property c ''accounts'');
        last_status_c \<leftarrow>
          (if truthy (property c ''last_status'') then status (property c ''last_status'')
           else Some JNull);
        Some (JObj
          [(''id'', property c ''id''),
           (''accounts'', accounts_c),
           (''last_status'', last_status_c),
           (''unread'', property c ''unread'')])
      })"

definition notification ::
  "notification_consts \<Rightarrow> notification_consts \<Rightarrow> jsval \<Rightarrow>
     (UnknownNotificationTypeError + jsval) option" where
  "notification N P n =
     (if nullish n then None
      else case decodeNotificationType N P (property n ''type'') of
        Inl unknown \<Rightarrow> Some (Inl unknown)
      | Inr notificationType \<Rightarrow>
          if truthy (property n ''status'') then do {
            account_c \<leftarrow> account (property n ''account'');
            status_c \<leftarrow> status (property n ''status'');
            Some (Inr (JObj
              [(''account'', account_c),
               (''created_at'', property n ''created_at''),
               (''id'', property n ''id''),
               (''status'', status_c),
               (''type'', notificationType)]))
          } else do {
            account_c \<leftarrow> account (property n ''account'');
            Some (Inr (JObj
              [(''account'', account_c),
               (''created_at'', property n ''created_at''),
               (''id'', property n ''id''),
               (''type'', notificationType)]))
          })"

definition results :: "jsval \<Rightarrow> jsval option" where
  "results r =
     (if nullish r then None
      else do {
        accounts_c \<leftarrow> map_array account (property r ''accounts'');
        statuses_c \<leftarrow> map_array status (property r ''statuses'');
        hashtags_c \<leftarrow> map_array (\<lambda>h. Some (tag h)) (property r ''hashtags'');
        Some (JObj
          [(''accounts'', accounts_c), (''statuses'', statuses_c), (''hashtags'', hashtags_c)])
      })"

text \<open>
  The part of the type \<^verbatim>\<open>Status\<close> of \<^verbatim>\<open>entities/status.ts\<close> that the converter
  relies on: \<^verbatim>\<open>account: Account\<close> is there, and \<^verbatim>\<open>reblog: Status | null\<close> is
  \<^verbatim>\<open>null\<close> (or anything else falsy) or again such a value.
\<close>

inductive Status_typed :: "jsval \<Rightarrow> bool" where
  plain: "\<not> nullish s \<Longrightarrow> \<not> nullish (property s ''account'') \<Longrightarrow>
     \<not> truthy (property s ''reblog'') \<Longrightarrow> Status_typed s"
| reblogging: "\<not> nullish s \<Longrightarrow> \<not> nullish (property s ''account'') \<Longrightarrow>
     truthy (property s ''reblog'') \<Longrightarrow> Status_typed (property s ''reblog'') \<Longrightarrow> Status_typed s"

section \<open>API client\<close>

text \<open>
  The transport is the external library axios. What the client relies on is modelled:
  a call either resolves with a response or rejects with an error,
  \<^verbatim>\<open>axios.isCancel\<close> tells the error of an aborted request from every other one,
  and a request made without a \<^verbatim>\<open>signal\<close> of its own listens to
  \<^verbatim>\<open>axios.defaults.signal\<close>.
\<close>

datatype limit = Infinity

record AxiosRequestConfig =
  params :: "jsval option"
  data :: "jsval option"
  headers :: "(string \<times> string) list"
  maxContentLength :: limit
  maxBodyLength :: limit

datatype http_method = GET | PUT | PUT_FORM | PATCH | PATCH_FORM | POST | POST_FORM | DELETE

text \<open>
  One call of \<^verbatim>\<open>axios.get(url, config)\<close>, \<^verbatim>\<open>axios.put(url, data, config)\<close>, ...,
  \<^verbatim>\<open>axios.delete(url, config)\<close>; \<open>call_data\<close> is the second argument of the
  calls that have three.
\<close>

record axios_call =
  call_method :: http_method
  call_url :: string
  call_data :: "jsval option"
  call_config :: AxiosRequestConfig

record AxiosResponse =
  resp_data :: jsval
  resp_status :: int
  resp_statusText :: string
  resp_headers :: "(string \<times> string) list"

datatype transport_error = CanceledError string | AxiosError string

fun isCancel :: "transport_error \<Rightarrow> bool" where
  "isCancel (CanceledError m) = True"
| "isCancel (AxiosError m) = False"

fun message :: "transport_error \<Rightarrow> string" where
  "message (CanceledError m) = m"
| "message (AxiosError m) = m"

datatype axios_result = Resolved AxiosResponse | Rejected transport_error

text \<open>
  The envelope \<^verbatim>\<open>Response<T>\<close> and what a verb method can reject with: the
  cancellation failure, the error of the transport as it is, or a TypeError thrown
  while the options are prepared.
\<close>

record Response =
  res_data :: jsval
  res_status :: int
  res_statusText :: string
  res_headers :: "(string \<times> string) list"

datatype client_error = RequestCanceledError string | Rethrown transport_error | TypeError

text \<open>
  The AbortControllers created so far, each with the \<^verbatim>\<open>aborted\<close> flag of its signal,
  and the library-wide \<^verbatim>\<open>axios.defaults.signal\<close>, which is the signal of one of them
  once a client has been constructed.
\<close>

record world =
  controllers :: "bool list"
  defaults_signal :: "nat option"

record Client =
  accessToken :: "string option"
  baseUrl :: string
  abortController :: nat

definition Client_new :: "string \<Rightarrow> string option \<Rightarrow> world \<Rightarrow> Client \<times> world" where
  \<comment> \<open>the constructor\<close>
  "Client_new base token w =
     (\<lparr>accessToken = token, baseUrl = base, abortController = length (controllers w)\<rparr>,
      \<lparr>controllers = controllers w @ [False],
       defaults_signal = Some (length (controllers w))\<rparr>)"

definition cancel :: "Client \<Rightarrow> world \<Rightarrow> world" where
  "cancel this w = w\<lparr>controllers := (controllers w)[abortController this := True]\<rparr>"

text \<open>
  A request in flight: the call and the signal it listens to. No verb method puts
  a \<^verbatim>\<open>signal\<close> into its options, so axios takes the one of its defaults at the
  time of the call. The request settles later: rejected with a CanceledError when
  its signal is aborted by then, and as the network \<open>net\<close> answers otherwise.
\<close>

record in_flight =
  request :: axios_call
  signal :: "nat option"

definition axios_issue :: "world \<Rightarrow> axios_call \<Rightarrow> in_flight" where
  "axios_issue w c = \<lparr>request = c, signal = defaults_signal w\<rparr>"

definition aborted :: "world \<Rightarrow> nat option \<Rightarrow> bool" where
  "aborted w sg = (case sg of None \<Rightarrow> False | Some a \<Rightarrow> a < length (controllers w) \<and> controllers w ! a)"

definition axios_settle :: "(axios_call \<Rightarrow> axios_result) \<Rightarrow> world \<Rightarrow> in_flight \<Rightarrow> axios_result" where
  "axios_settle net w r =
     (if aborted w (signal r) then Rejected (CanceledError ''canceled'') else net (request r))"

text \<open>
  The external library object-assign-deep, as far as the call
  \<^verbatim>\<open>objectAssignDeep({}, options, {headers: hs})\<close> runs it.

  \<^verbatim>\<open>cloneValue\<close> copies a value. An object is copied by
  \<^verbatim>\<open>for (const key in input) { if (!input.hasOwnProperty(key)) continue;
  output[key] = cloneValue(input[key]) }\<close>. An own property named
  \<^verbatim>\<open>hasOwnProperty\<close> hides the method, and calling it throws a TypeError, since no
  value here is a function. The assignment \<^verbatim>\<open>output['__proto__'] = v\<close> on a fresh
  object creates no own property (it sets the prototype when \<open>v\<close> is an object or
  \<^verbatim>\<open>null\<close> and does nothing otherwise), so the key is not in the copy; prototypes are
  not part of the values modelled here.
\<close>

fun cloneValue :: "jsval \<Rightarrow> jsval option" where
  "cloneValue (JObj kvs) =
     (if ''hasOwnProperty'' \<in> fst ` set kvs then None
      else map_option (\<lambda>kvs'. JObj (filter (\<lambda>(k, v). k \<noteq> ''__proto__'') kvs'))
             (those (map (\<lambda>(k, v). map_option (Pair k) (cloneValue v)) kvs)))"
| "cloneValue (JArr xs) = map_option JArr (those (map cloneValue xs))"
| "cloneValue JUndefined = Some JUndefined"
| "cloneValue JNull = Some JNull"
| "cloneValue (JBool b) = Some (JBool b)"
| "cloneValue (JNum n) = Some (JNum n)"
| "cloneValue (JStr s) = Some (JStr s)"

text \<open>\<^verbatim>\<open>quickCloneObject\<close> on a headers object, whose values are strings.\<close>

definition quickCloneObject :: "(string \<times> string) list \<Rightarrow> (string \<times> string) list option" where
  "quickCloneObject hs =
     (if ''hasOwnProperty'' \<in> fst ` set hs then None
      else Some (filter (\<lambda>(k, v). k \<noteq> ''__proto__'') hs))"

text \<open>
  The merge itself. The first object, \<^verbatim>\<open>options\<close>, is copied into the empty target
  property by property, in the order of the literal: \<^verbatim>\<open>params\<close> or \<^verbatim>\<open>data\<close>
  where there is one, then \<^verbatim>\<open>headers\<close>, then the two limits. The second object
  has the one property \<^verbatim>\<open>headers\<close>, an object, and so has the target by then: the
  two are merged into a fresh object, first the copied headers of the caller, then the
  copy of \<open>hs\<close>, a key of \<open>hs\<close> replacing the value of the same key or being
  added after the others.
\<close>

definition objectAssignDeep ::
  "AxiosRequestConfig \<Rightarrow> (string \<times> string) list \<Rightarrow> AxiosRequestConfig option" where
  "objectAssignDeep options hs = do {
     params_c \<leftarrow> (case params options of None \<Rightarrow> Some None | Some v \<Rightarrow> map_option Some (cloneValue v));
     data_c \<leftarrow> (case data options of None \<Rightarrow> Some None | Some v \<Rightarrow> map_option Some (cloneValue v));
     headers_c \<leftarrow> quickCloneObject (headers options);
     hs_c \<leftarrow> quickCloneObject hs;
     Some \<lparr>params = params_c, data = data_c,
           headers = fold (\<lambda>(k, v). AList.update k v) hs_c headers_c,
           maxContentLength = maxContentLength options,
           maxBodyLength = maxBodyLength options\<rparr>
   }"

text \<open>
  The block every verb method runs on its options before the call. The condition
  \<^verbatim>\<open>if (this.accessToken)\<close> is false for \<^verbatim>\<open>null\<close> and for the empty string.
  \<open>None\<close>: the merge threw, and no call is made.
\<close>

definition authorize :: "Client \<Rightarrow> AxiosRequestConfig \<Rightarrow> AxiosRequestConfig option" where
  "authorize this options =
     (case accessToken this of
        None \<Rightarrow> Some options
      | Some t \<Rightarrow>
          if t = [] then Some options
          else objectAssignDeep options [(''Authorization'', ''Bearer '' @ t)])"

text \<open>The default \<^verbatim>\<open>params = {}\<close> of every verb method, taken when the argument is \<^verbatim>\<open>undefined\<close>.\<close>

definition default_params :: "jsval \<Rightarrow> jsval" where
  "default_params ps = (if ps = JUndefined then JObj [] else ps)"

text \<open>The \<^verbatim>\<open>.catch\<close> handler of the verbs that have one, and the \<^verbatim>\<open>.then\<close> handler.\<close>

definition catch_cancel :: "axios_result \<Rightarrow> client_error + AxiosResponse" where
  "catch_cancel r =
     (case r of
        Resolved resp \<Rightarrow> Inr resp
      | Rejected err \<Rightarrow>
          if isCancel err then Inl (RequestCanceledError (message err)) else Inl (Rethrown err))"

definition no_catch :: "axios_result \<Rightarrow> client_error + AxiosResponse" where
  "no_catch r = (case r of Resolved resp \<Rightarrow> Inr resp | Rejected err \<Rightarrow> Inl (Rethrown err))"

definition then_response :: "client_error + AxiosResponse \<Rightarrow> client_error + Response" where
  "then_response r =
     (case r of
        Inl err \<Rightarrow> Inl err
      | Inr resp \<Rightarrow>
          Inr \<lparr>res_data = resp_data resp, res_status = resp_status resp,
               res_statusText = resp_statusText resp, res_headers = resp_headers resp\<rparr>)"

text \<open>
  Each verb method in two parts: the call it makes (\<open>_request\<close>), if the options
  could be prepared, and the method itself, which hands the call to the transport
  \<open>ax\<close> and maps what comes back. The methods are \<^verbatim>\<open>async\<close>: a TypeError thrown
  before the call rejects the promise they return.
\<close>

definition get_request :: "Client \<Rightarrow> string \<Rightarrow> jsval \<Rightarrow> (string \<times> string) list \<Rightarrow> bool \<Rightarrow> axios_call option" where
  "get_request this path ps hs pathIsFullyQualified =
     map_option
       (\<lambda>options. \<lparr>call_method = GET, call_url = (if pathIsFullyQualified then [] else baseUrl this) @ path,
                   call_data = None, call_config = options\<rparr>)
       (authorize this
          \<lparr>params = Some (default_params ps), data = None, headers = hs,
            maxContentLength = Infinity, maxBodyLength = Infinity\<rparr>)"

definition get ::
  "(axios_call \<Rightarrow> axios_result) \<Rightarrow> Client \<Rightarrow> string \<Rightarrow> jsval \<Rightarrow> (string \<times> string) list \<Rightarrow> bool \<Rightarrow> client_error + Response" where
  "get ax this path ps hs pathIsFullyQualified =
     (case get_request this path ps hs pathIsFullyQualified of
        None \<Rightarrow> Inl TypeError
      | Some c \<Rightarrow> then_response (catch_cancel (ax c)))"

definition put_request :: "Client \<Rightarrow> string \<Rightarrow> jsval \<Rightarrow> (string \<times> string) list \<Rightarrow> axios_call option" where
  "put_request this path ps hs =
     map_option
       (\<lambda>options. \<lparr>call_method = PUT, call_url = baseUrl this @ path,
                   call_data = Some (default_params ps), call_config = options\<rparr>)
       (authorize this
          \<lparr>params = None, data = None, headers = hs,
            maxContentLength = Infinity, maxBodyLength = Infinity\<rparr>)"

definition put ::
  "(axios_call \<Rightarrow> axios_result) \<Rightarrow> Client \<Rightarrow> string \<Rightarrow> jsval \<Rightarrow> (string \<times> string) list \<Rightarrow> client_error + Response" where
  "put ax this path ps hs =
     (case put_request this path ps hs of
        None \<Rightarrow> Inl TypeError
      | Some c \<Rightarrow> then_response (catch_cancel (ax c)))"

definition putForm_request :: "Client \<Rightarrow> string \<Rightarrow> jsval \<Rightarrow> (string \<times> string) list \<Rightarrow> axios_call option" where
  "putForm_request this path ps hs =
     map_option
       (\<lambda>options. \<lparr>call_method = PUT_FORM, call_url = baseUrl this @ path,
                   call_data = Some (default_params ps), call_config = options\<rparr>)
       (authorize this
          \<lparr>params = None, data = None, headers = hs,
            maxContentLength = Infinity, maxBodyLength = Infinity\<rparr>)"

definition putForm ::
  "(axios_call \<Rightarrow> axios_result) \<Rightarrow> Client \<Rightarrow> string \<Rightarrow> jsval \<Rightarrow> (string \<times> string) list \<Rightarrow> client_error + Response" where
  "putForm ax this path ps hs =
     (case putForm_request this path ps hs of
        None \<Rightarrow> Inl TypeError
      | Some c \<Rightarrow> then_response (catch_cancel (ax c)))"

definition patch_request :: "Client \<Rightarrow> string \<Rightarrow> jsval \<Rightarrow> (string \<times> string) list \<Rightarrow> axios_call option" where
  "patch_request this path ps hs =
     map_option
       (\<lambda>options. \<lparr>call_method = PATCH, call_url = baseUrl this @ path,
                   call_data = Some (default_params ps), call_config = options\<rparr>)
       (authorize this
          \<lparr>params = None, data = None, headers = hs,
            maxContentLength = Infinity, maxBodyLength = Infinity\<rparr>)"

definition patch ::
  "(axios_call \<Rightarrow> axios_result) \<Rightarrow> Client \<Rightarrow> string \<Rightarrow> jsval \<Rightarrow> (string \<times> string) list \<Rightarrow> client_error + Response" where
  "patch ax this path ps hs =
     (case patch_request this path ps hs of
        None \<Rightarrow> Inl TypeError
      | Some c \<Rightarrow> then_response (catch_cancel (ax c)))"

definition patchForm_request :: "Client \<Rightarrow> string \<Rightarrow> jsval \<Rightarrow> (string \<times> string) list \<Rightarrow> axios_call option" where
  "patchForm_request this path ps hs =
     map_option
       (\<lambda>options. \<lparr>call_method = PATCH_FORM, call_url = baseUrl this @ path,
                   call_data = Some (default_params ps), call_config = options\<rparr>)
       (authorize this
          \<lparr>params = None, data = None, headers = hs,
            maxContentLength = Infinity, maxBodyLength = Infinity\<rparr>)"

definition patchForm ::
  "(axios_call \<Rightarrow> axios_result) \<Rightarrow> Client \<Rightarrow> string \<Rightarrow> jsval \<Rightarrow> (string \<times> string) list \<Rightarrow> client_error + Response" where
  "patchForm ax this path ps hs =
     (case patchForm_request this path ps hs of
        None \<Rightarrow> Inl TypeError
      | Some c \<Rightarrow> then_response (catch_cancel (ax c)))"

definition post_request :: "Client \<Rightarrow> string \<Rightarrow> jsval \<Rightarrow> (string \<times> string) list \<Rightarrow> axios_call option" where
  "post_request this path ps hs =
     map_option
       (\<lambda>options. \<lparr>call_method = POST, call_url = baseUrl this @ path,
                   call_data = Some (default_params ps), call_config = options\<rparr>)
       (authorize this
          \<lparr>params = None, data = None, headers = hs,
            maxContentLength = Infinity, maxBodyLength = Infinity\<rparr>)"

definition post ::
  "(axios_call \<Rightarrow> axios_result) \<Rightarrow> Client \<Rightarrow> string \<Rightarrow> jsval \<Rightarrow> (string \<times> string) list \<Rightarrow> client_error + Response" where
  "post ax this path ps hs =
     (case post_request this path ps hs of
        None \<Rightarrow> Inl TypeError
      | Some c \<Rightarrow> then_response (no_catch (ax c)))"

definition postForm_request :: "Client \<Rightarrow> string \<Rightarrow> jsval \<Rightarrow> (string \<times> string) list \<Rightarrow> axios_call option" where
  "postForm_request this path ps hs =
     map_option
       (\<lambda>options. \<lparr>call_method = POST_FORM, call_url = baseUrl this @ path,
                   call_data = Some (default_params ps), call_config = options\<rparr>)
       (authorize this
          \<lparr>params = None, data = None, headers = hs,
            maxContentLength = Infinity, maxBodyLength = Infinity\<rparr>)"

definition postForm ::
  "(axios_call \<Rightarrow> axios_result) \<Rightarrow> Client \<Rightarrow> string \<Rightarrow> jsval \<Rightarrow> (string \<times> string) list \<Rightarrow> client_error + Response" where
  "postForm ax this path ps hs =
     (case postForm_request this path ps hs of
        None \<Rightarrow> Inl TypeError
      | Some c \<Rightarrow> then_response (no_catch (ax c)))"

definition del_request :: "Client \<Rightarrow> string \<Rightarrow> jsval \<Rightarrow> (string \<times> string) list \<Rightarrow> axios_call option" where
  "del_request this path ps hs =
     map_option
       (\<lambda>options. \<lparr>call_method = DELETE, call_url = baseUrl this @ path,
                   call_data = None, call_config = options\<rparr>)
       (authorize this
          \<lparr>params = None, data = Some (default_params ps), headers = hs,
            maxContentLength = Infinity, maxBodyLength = Infinity\<rparr>)"

definition del ::
  "(axios_call \<Rightarrow> axios_result) \<Rightarrow> Client \<Rightarrow> string \<Rightarrow> jsval \<Rightarrow> (string \<times> string) list \<Rightarrow> client_error + Response" where
  "del ax this path ps hs =
     (case del_request this path ps hs of
        None \<Rightarrow> Inl TypeError
      | Some c \<Rightarrow> then_response (catch_cancel (ax c)))"

text \<open>
  The transport as a verb method of a client sees it: the call is issued in the
  world \<open>w_issue\<close> and settles in the world \<open>w_settle\<close>, after whatever
  happened in between.
\<close>

definition transport ::
  "(axios_call \<Rightarrow> axios_result) \<Rightarrow> world \<Rightarrow> world \<Rightarrow> axios_call \<Rightarrow> axios_result" where
  "transport net w_issue w_settle c = axios_settle net w_settle (axios_issue w_issue c)"

text \<open>A backend that answers every call with status 200 and the body \<^verbatim>\<open>{"ok":true}\<close>.\<close>

definition ok_net :: "axios_call \<Rightarrow> axios_result" where
  "ok_net c =
     Resolved \<lparr>resp_data = JObj [(''ok'', JBool True)], resp_status = 200,
               resp_statusText = ''OK'', resp_headers = []\<rparr>"

section \<open>Auxiliary facts\<close>

lemma those_map_Some: "those (map (\<lambda>x. Some (g x)) xs) = Some (map g xs)"
  by (induction xs) simp_all

lemma map_array_not_array: "\<not> isArray v \<Longrightarrow> map_array f v = Some (JArr [])"
  by (cases v) (simp_all add: map_array_def)

lemma map_array_total':
  "map_array (\<lambda>x. Some x) v = Some (if isArray v then v else JArr [])"
  "map_array (\<lambda>x. Some (emoji x)) v = Some (if isArray v then v else JArr [])"
  "map_array (\<lambda>x. Some (attachment x)) v = Some (if isArray v then v else JArr [])"
  "map_array (\<lambda>x. Some (mention x)) v = Some (if isArray v then v else JArr [])"
  "map_array (\<lambda>x. Some (tag x)) v = Some (if isArray v then v else JArr [])"
  by (cases v; simp add: map_array_def those_map_Some [where g = "\<lambda>x. x", simplified] emoji_def attachment_def mention_def tag_def)+

lemma account_Some: "\<not> nullish a \<Longrightarrow> \<exists>r. account a = Some r"
  by (simp add: account_def)

lemma Status_typed_returns: "Status_typed s \<Longrightarrow> \<exists>r. status s = Some r"
proof (induction rule: Status_typed.induct)
  case (plain s)
  then show ?case
    by (auto simp: status.simps [of s] map_array_total' dest: account_Some)
next
  case (reblogging s)
  then show ?case
    by (auto simp: status.simps [of s] map_array_total' dest: account_Some)
qed

lemma status_shape:
  assumes "status s = Some r"
  obtains account_c reblog_c where
    "\<not> nullish s"
    "account (property s ''account'') = Some account_c"
    "(if truthy (property s ''reblog'') then status (property s ''reblog'') else Some JNull) = Some reblog_c"
    "r = status_literal s account_c reblog_c
          (if isArray (property s ''emojis'') then property s ''emojis'' else JArr [])
          (if isArray (property s ''media_attachments'') then property s ''media_attachments'' else JArr [])
          (if isArray (property s ''mentions'') then property s ''mentions'' else JArr [])"
  using assms
  by (simp add: status.simps [of s] map_array_total' split: if_splits Option.bind_splits)

lemma status_literal_own:
  "own (status_literal s a b e m n) ''plain_content'' = Some JNull"
  "own (status_literal s a b e m n) ''card'' = Some JNull"
  "own (status_literal s a b e m n) ''pinned'' = Some (JBool False)"
  "own (status_literal s a b e m n) ''emoji_reactions'' = Some (JArr [])"
  "own (status_literal s a b e m n) ''quote'' = Some (JBool False)"
  "own (status_literal s a b e m n) ''bookmarked'' =
      Some (if truthy (property s ''bookmarked'') then property s ''bookmarked'' else JBool False)"
  "own (status_literal s a b e m n) ''tags'' = Some (property s ''tags'')"
  "own (status_literal s a b e m n) ''account'' = Some a"
  "own (status_literal s a b e m n) ''reblog'' = Some b"
  "own (status_literal s a b e m n) ''emojis'' = Some e"
  "own (status_literal s a b e m n) ''media_attachments'' = Some m"
  "own (status_literal s a b e m n) ''mentions'' = Some n"
  by (simp_all add: status_literal_def)

lemma absent_undefined: "own s k = None \<Longrightarrow> property s k = JUndefined"
  by (cases s) simp_all

lemma Status_typed_truthy: "Status_typed s \<Longrightarrow> truthy s"
  by (cases s) (auto elim: Status_typed.cases)

section \<open>The enumeration mapper\<close>

text \<open>
  Claim C4. Whenever the five constants of each namespace are pairwise distinct, each
  of the five canonical notification kinds is encoded to a backend kind that decodes
  back to it, each of the five backend kinds is decoded to a canonical kind that
  encodes back to it, and on every other value, a string or not, both functions
  return the marker \<^verbatim>\<open>UnknownNotificationTypeError\<close> as a value.
\<close>

theorem notification_type_round_trip:
  assumes "distinct (members N)" and "distinct (members P)"
  shows "(\<forall>m \<in> set (members N). \<exists>b \<in> set (members P).
            encodeNotificationType N P (JStr m) = Inr (JStr b) \<and>
            decodeNotificationType N P (JStr b) = Inr (JStr m)) \<and>
         (\<forall>b \<in> set (members P). \<exists>m \<in> set (members N).
            decodeNotificationType N P (JStr b) = Inr (JStr m) \<and>
            encodeNotificationType N P (JStr m) = Inr (JStr b)) \<and>
         (\<forall>t. t \<notin> JStr ` set (members N) \<longrightarrow>
            encodeNotificationType N P t = Inl UnknownNotificationTypeError) \<and>
         (\<forall>t. t \<notin> JStr ` set (members P) \<longrightarrow>
            decodeNotificationType N P t = Inl UnknownNotificationTypeError)"
  using assms
  by (auto simp: members_def encodeNotificationType_def decodeNotificationType_def)

theorem notification_type_round_trip_witness:
  "distinct (members \<lparr>Follow = ''follow'', Favourite = ''favourite'', Reblog = ''reblog'',
       Mention = ''mention'', FollowRequest = ''follow_request''\<rparr>) \<and>
   encodeNotificationType
     \<lparr>Follow = ''follow'', Favourite = ''favourite'', Reblog = ''reblog'',
       Mention = ''mention'', FollowRequest = ''follow_request''\<rparr>
     \<lparr>Follow = ''follow'', Favourite = ''favourite'', Reblog = ''reblog'',
       Mention = ''mention'', FollowRequest = ''follow_request''\<rparr>
     (JStr ''emoji_reaction'') = Inl UnknownNotificationTypeError \<and>
   encodeNotificationType
     \<lparr>Follow = ''follow'', Favourite = ''favourite'', Reblog = ''reblog'',
       Mention = ''mention'', FollowRequest = ''follow_request''\<rparr>
     \<lparr>Follow = ''follow'', Favourite = ''favourite'', Reblog = ''reblog'',
       Mention = ''mention'', FollowRequest = ''follow_request''\<rparr>
     (JStr ''mention'') = Inr (JStr ''mention'') \<and>
   decodeNotificationType
     \<lparr>Follow = ''follow'', Favourite = ''favourite'', Reblog = ''reblog'',
       Mention = ''mention'', FollowRequest = ''follow_request''\<rparr>
     \<lparr>Follow = ''follow'', Favourite = ''favourite'', Reblog = ''reblog'',
       Mention = ''mention'', FollowRequest = ''follow_request''\<rparr>
     (JStr ''mention'') = Inr (JStr ''mention'') \<and>
   decodeNotificationType
     \<lparr>Follow = ''follow'', Favourite = ''favourite'', Reblog = ''reblog'',
       Mention = ''mention'', FollowRequest = ''follow_request''\<rparr>
     \<lparr>Follow = ''follow'', Favourite = ''favourite'', Reblog = ''reblog'',
       Mention = ''mention'', FollowRequest = ''follow_request''\<rparr>
     (JStr ''pleroma:emoji_reaction'') = Inl UnknownNotificationTypeError"
  using notification_type_round_trip
    [of "\<lparr>Follow = ''follow'', Favourite = ''favourite'', Reblog = ''reblog'',
           Mention = ''mention'', FollowRequest = ''follow_request''\<rparr>"
        "\<lparr>Follow = ''follow'', Favourite = ''favourite'', Reblog = ''reblog'',
           Mention = ''mention'', FollowRequest = ''follow_request''\<rparr>"]
  by (simp add: members_def encodeNotificationType_def decodeNotificationType_def)

section \<open>The account converter\<close>

text \<open>
  Claim C5. Converting any backend account (any value on which a property can be read)
  returns an object that has the properties \<^verbatim>\<open>group\<close>, \<^verbatim>\<open>noindex\<close>,
  \<^verbatim>\<open>suspended\<close>, \<^verbatim>\<open>limited\<close>, \<^verbatim>\<open>moved\<close> and \<^verbatim>\<open>bot\<close>, each with the value
  \<^verbatim>\<open>null\<close>; the list of its keys is the same for every input, also when the input
  has no \<^verbatim>\<open>discoverable\<close>.
\<close>

theorem account_null_fields:
  assumes "\<not> nullish a"
  shows "\<exists>r. account a = Some r \<and>
           own r ''group'' = Some JNull \<and> own r ''noindex'' = Some JNull \<and>
           own r ''suspended'' = Some JNull \<and> own r ''limited'' = Some JNull \<and>
           own r ''moved'' = Some JNull \<and> own r ''bot'' = Some JNull \<and>
           own r ''discoverable'' = Some (property a ''discoverable'') \<and>
           keys r =
             [''id'', ''username'', ''acct'', ''display_name'', ''locked'', ''discoverable'',
              ''group'', ''noindex'', ''suspended'', ''limited'', ''created_at'',
              ''followers_count'', ''following_count'', ''statuses_count'', ''note'', ''url'',
              ''avatar'', ''avatar_static'', ''header'', ''header_static'', ''emojis'', ''moved'',
              ''fields'', ''bot'', ''source'']"
  using assms by (simp add: account_def)

theorem account_null_fields_witness:
  "\<not> nullish (JObj [(''id'', JStr ''7''), (''username'', JStr ''ann''), (''bot'', JBool True)]) \<and>
   (\<exists>r. account (JObj [(''id'', JStr ''7''), (''username'', JStr ''ann''), (''bot'', JBool True)]) = Some r \<and>
      own r ''bot'' = Some JNull \<and> own r ''group'' = Some JNull \<and>
      own r ''discoverable'' = Some JUndefined \<and> own r ''username'' = Some (JStr ''ann''))"
  using account_null_fields [of "JObj [(''id'', JStr ''7''), (''username'', JStr ''ann''), (''bot'', JBool True)]"]
  by (simp add: account_def)

section \<open>The notification converter\<close>

text \<open>
  Claim C9. For every backend notification whose \<^verbatim>\<open>type\<close> is none of the five
  backend constants, \<^verbatim>\<open>decodeNotificationType\<close> yields the marker
  \<^verbatim>\<open>UnknownNotificationTypeError\<close> and \<^verbatim>\<open>notification\<close> returns exactly that
  result, not a converted entity.
\<close>

theorem notification_unknown_type:
  assumes "\<not> nullish n"
    and "property n ''type'' \<notin> JStr ` set (members P)"
  shows "decodeNotificationType N P (property n ''type'') = Inl UnknownNotificationTypeError \<and>
         notification N P n = Some (decodeNotificationType N P (property n ''type''))"
  using assms
  by (auto simp: notification_def decodeNotificationType_def members_def)

theorem notification_unknown_type_witness:
  "\<not> nullish (JObj [(''id'', JStr ''3''), (''type'', JStr ''poll'')]) \<and>
   property (JObj [(''id'', JStr ''3''), (''type'', JStr ''poll'')]) ''type'' \<notin>
     JStr ` set (members \<lparr>Follow = ''follow'', Favourite = ''favourite'', Reblog = ''reblog'',
       Mention = ''mention'', FollowRequest = ''follow_request''\<rparr>) \<and>
   notification
     \<lparr>Follow = ''follow'', Favourite = ''favourite'', Reblog = ''reblog'',
       Mention = ''mention'', FollowRequest = ''follow_request''\<rparr>
     \<lparr>Follow = ''follow'', Favourite = ''favourite'', Reblog = ''reblog'',
       Mention = ''mention'', FollowRequest = ''follow_request''\<rparr>
     (JObj [(''id'', JStr ''3''), (''type'', JStr ''poll'')]) = Some (Inl UnknownNotificationTypeError)"
  using notification_unknown_type
    [of "JObj [(''id'', JStr ''3''), (''type'', JStr ''poll'')]"
        "\<lparr>Follow = ''follow'', Favourite = ''favourite'', Reblog = ''reblog'',
           Mention = ''mention'', FollowRequest = ''follow_request''\<rparr>"
        "\<lparr>Follow = ''follow'', Favourite = ''favourite'', Reblog = ''reblog'',
           Mention = ''mention'', FollowRequest = ''follow_request''\<rparr>"]
  by (simp add: members_def)

text \<open>
  Claim C8. For a backend notification whose type decodes and whose account is there:
  when \<^verbatim>\<open>status\<close> is absent (or otherwise falsy) the result is the object with the
  four properties \<^verbatim>\<open>account\<close>, \<^verbatim>\<open>created_at\<close>, \<^verbatim>\<open>id\<close> and \<^verbatim>\<open>type\<close>
  and no \<^verbatim>\<open>status\<close>; when \<^verbatim>\<open>status\<close> is a status the result has the same four
  properties with the same values and, in addition, \<^verbatim>\<open>status\<close> as converted by the
  status converter.
\<close>

theorem notification_shapes:
  assumes "\<not> nullish n"
    and "decodeNotificationType N P (property n ''type'') = Inr notificationType"
    and "\<not> nullish (property n ''account'')"
  shows "\<exists>account_c. account (property n ''account'') = Some account_c \<and>
         (own n ''status'' = None \<longrightarrow> \<not> truthy (property n ''status'')) \<and>
         (\<not> truthy (property n ''status'') \<longrightarrow>
            notification N P n = Some (Inr (JObj
              [(''account'', account_c),
               (''created_at'', property n ''created_at''),
               (''id'', property n ''id''),
               (''type'', notificationType)]))) \<and>
         (Status_typed (property n ''status'') \<longrightarrow>
            (\<exists>status_c. status (property n ''status'') = Some status_c \<and>
               notification N P n = Some (Inr (JObj
                 [(''account'', account_c),
                  (''created_at'', property n ''created_at''),
                  (''id'', property n ''id''),
                  (''status'', status_c),
                  (''type'', notificationType)]))))"
proof -
  from assms(3) obtain account_c where a: "account (property n ''account'') = Some account_c"
    using account_Some by blast
  have absent: "\<not> truthy (property n ''status'')" if "own n ''status'' = None"
    using that by (cases n) simp_all
  have without: "notification N P n = Some (Inr (JObj
              [(''account'', account_c),
               (''created_at'', property n ''created_at''),
               (''id'', property n ''id''),
               (''type'', notificationType)]))"
    if "\<not> truthy (property n ''status'')"
    using that assms(1,2) a by (simp add: notification_def)
  have "with": "\<exists>status_c. status (property n ''status'') = Some status_c \<and>
               notification N P n = Some (Inr (JObj
                 [(''account'', account_c),
                  (''created_at'', property n ''created_at''),
                  (''id'', property n ''id''),
                  (''status'', status_c),
                  (''type'', notificationType)]))"
    if st: "Status_typed (property n ''status'')"
  proof -
    from st obtain status_c where c: "status (property n ''status'') = Some status_c"
      using Status_typed_returns by blast
    from st have "truthy (property n ''status'')"
      by (rule Status_typed_truthy)
    with assms(1,2) a c show ?thesis
      by (simp add: notification_def)
  qed
  show ?thesis
    apply (rule exI [of _ account_c])
    apply (intro conjI impI)
       apply (rule a)
      apply (erule absent)
     apply (erule without)
    apply (erule "with")
    done
qed

theorem notification_shapes_witness:
  "\<not> nullish (JObj [(''id'', JStr ''3''), (''type'', JStr ''follow''), (''account'', JObj [])]) \<and>
   decodeNotificationType
     \<lparr>Follow = ''follow'', Favourite = ''favourite'', Reblog = ''reblog'',
       Mention = ''mention'', FollowRequest = ''follow_request''\<rparr>
     \<lparr>Follow = ''follow'', Favourite = ''favourite'', Reblog = ''reblog'',
       Mention = ''mention'', FollowRequest = ''follow_request''\<rparr>
     (property (JObj [(''id'', JStr ''3''), (''type'', JStr ''follow''), (''account'', JObj [])]) ''type'')
     = Inr (JStr ''follow'') \<and>
   \<not> nullish (property (JObj [(''id'', JStr ''3''), (''type'', JStr ''follow''), (''account'', JObj [])])
     ''account'') \<and>
   (\<exists>r. notification
     \<lparr>Follow = ''follow'', Favourite = ''favourite'', Reblog = ''reblog'',
       Mention = ''mention'', FollowRequest = ''follow_request''\<rparr>
     \<lparr>Follow = ''follow'', Favourite = ''favourite'', Reblog = ''reblog'',
       Mention = ''mention'', FollowRequest = ''follow_request''\<rparr>
     (JObj [(''id'', JStr ''3''), (''type'', JStr ''follow''), (''account'', JObj [])]) = Some (Inr r) \<and>
     keys r = [''account'', ''created_at'', ''id'', ''type''] \<and> own r ''status'' = None)"
  using notification_shapes
    [of "JObj [(''id'', JStr ''3''), (''type'', JStr ''follow''), (''account'', JObj [])]"
        "\<lparr>Follow = ''follow'', Favourite = ''favourite'', Reblog = ''reblog'',
           Mention = ''mention'', FollowRequest = ''follow_request''\<rparr>"
        "\<lparr>Follow = ''follow'', Favourite = ''favourite'', Reblog = ''reblog'',
           Mention = ''mention'', FollowRequest = ''follow_request''\<rparr>"
        "JStr ''follow''"]
  by (auto simp: decodeNotificationType_def)

section \<open>The status converter\<close>

text \<open>
  Claim C7. Converting a status returns a status whose \<^verbatim>\<open>reblog\<close> is \<^verbatim>\<open>null\<close>
  when the input's is \<^verbatim>\<open>null\<close>, and is the result of the same converter on the
  nested status when there is one, whose own account, media attachments and mentions
  are converted by the same functions as at the top. The hypothesis holds of inputs
  of every nesting depth, so the conversion returns at every depth.
\<close>

theorem status_reblog:
  assumes "Status_typed s"
  shows "\<exists>r. status s = Some r \<and>
           (property s ''reblog'' = JNull \<longrightarrow> own r ''reblog'' = Some JNull) \<and>
           (truthy (property s ''reblog'') \<longrightarrow>
              (\<exists>reblog_c. status (property s ''reblog'') = Some reblog_c \<and>
                 own r ''reblog'' = Some reblog_c \<and>
                 own reblog_c ''account'' = account (property (property s ''reblog'') ''account'') \<and>
                 own reblog_c ''media_attachments'' =
                   map_array (\<lambda>m. Some (attachment m))
                     (property (property s ''reblog'') ''media_attachments'') \<and>
                 own reblog_c ''mentions'' =
                   map_array (\<lambda>m. Some (mention m))
                     (property (property s ''reblog'') ''mentions'')))"
proof -
  from assms obtain r where r: "status s = Some r"
    using Status_typed_returns by blast
  from r show ?thesis
  proof (rule status_shape)
    fix account_c reblog_c
    assume rb: "(if truthy (property s ''reblog'') then status (property s ''reblog'') else Some JNull)
        = Some reblog_c"
      and lit: "r = status_literal s account_c reblog_c
        (if isArray (property s ''emojis'') then property s ''emojis'' else JArr [])
        (if isArray (property s ''media_attachments'') then property s ''media_attachments'' else JArr [])
        (if isArray (property s ''mentions'') then property s ''mentions'' else JArr [])"
    have null: "own r ''reblog'' = Some JNull" if "property s ''reblog'' = JNull"
      using that rb lit by (simp add: status_literal_own)
    have nested: "\<exists>reblog_c. status (property s ''reblog'') = Some reblog_c \<and>
                 own r ''reblog'' = Some reblog_c \<and>
                 own reblog_c ''account'' = account (property (property s ''reblog'') ''account'') \<and>
                 own reblog_c ''media_attachments'' =
                   map_array (\<lambda>m. Some (attachment m))
                     (property (property s ''reblog'') ''media_attachments'') \<and>
                 own reblog_c ''mentions'' =
                   map_array (\<lambda>m. Some (mention m))
                     (property (property s ''reblog'') ''mentions'')"
      if t: "truthy (property s ''reblog'')"
    proof -
      from t rb have inner: "status (property s ''reblog'') = Some reblog_c"
        by simp
      from inner show ?thesis
        by (rule status_shape) (use inner lit in \<open>simp add: status_literal_own map_array_total'\<close>)
    qed
    show ?thesis
      apply (rule exI [of _ r])
      apply (intro conjI impI)
        apply (rule r)
       apply (erule null)
      apply (erule nested)
      done
  qed
qed

theorem status_reblog_witness:
  "Status_typed (JObj [(''account'', JObj []),
      (''reblog'', JObj [(''account'', JObj []), (''reblog'', JNull), (''mentions'', JNull)])]) \<and>
   (\<exists>r reblog_c.
      status (JObj [(''account'', JObj []),
        (''reblog'', JObj [(''account'', JObj []), (''reblog'', JNull), (''mentions'', JNull)])]) = Some r \<and>
      status (JObj [(''account'', JObj []), (''reblog'', JNull), (''mentions'', JNull)]) = Some reblog_c \<and>
      own r ''reblog'' = Some reblog_c \<and>
      own reblog_c ''account'' = account (JObj []) \<and>
      own reblog_c ''mentions'' = Some (JArr []))"
proof -
  have inner: "Status_typed (JObj [(''account'', JObj []), (''reblog'', JNull), (''mentions'', JNull)])"
    by (rule Status_typed.plain) simp_all
  have outer: "Status_typed (JObj [(''account'', JObj []),
      (''reblog'', JObj [(''account'', JObj []), (''reblog'', JNull), (''mentions'', JNull)])])"
    by (rule Status_typed.reblogging) (simp_all add: inner)
  from status_reblog [OF outer] outer show ?thesis
    by (auto simp: map_array_def)
qed

text \<open>
  Claim C10. The conversion of a status returns on every status, and whatever it
  returns has \<^verbatim>\<open>plain_content\<close> and \<^verbatim>\<open>card\<close> \<^verbatim>\<open>null\<close>, \<^verbatim>\<open>pinned\<close> and
  \<^verbatim>\<open>quote\<close> \<^verbatim>\<open>false\<close>, \<^verbatim>\<open>emoji_reactions\<close> empty, and \<^verbatim>\<open>bookmarked\<close>
  equal to the backend value when that is truthy and \<^verbatim>\<open>false\<close> otherwise, an absent
  value included.
\<close>

theorem status_constants:
  "(Status_typed s \<longrightarrow> (\<exists>r. status s = Some r)) \<and>
   (\<forall>r. status s = Some r \<longrightarrow>
      own r ''plain_content'' = Some JNull \<and>
      own r ''card'' = Some JNull \<and>
      own r ''pinned'' = Some (JBool False) \<and>
      own r ''emoji_reactions'' = Some (JArr []) \<and>
      own r ''quote'' = Some (JBool False) \<and>
      own r ''bookmarked'' =
        Some (if truthy (property s ''bookmarked'') then property s ''bookmarked'' else JBool False) \<and>
      (own s ''bookmarked'' = None \<longrightarrow> own r ''bookmarked'' = Some (JBool False)))"
proof (rule conjI)
  show "Status_typed s \<longrightarrow> (\<exists>r. status s = Some r)"
    by (simp add: Status_typed_returns)
next
  have "own r ''plain_content'' = Some JNull \<and>
      own r ''card'' = Some JNull \<and>
      own r ''pinned'' = Some (JBool False) \<and>
      own r ''emoji_reactions'' = Some (JArr []) \<and>
      own r ''quote'' = Some (JBool False) \<and>
      own r ''bookmarked'' =
        Some (if truthy (property s ''bookmarked'') then property s ''bookmarked'' else JBool False) \<and>
      (own s ''bookmarked'' = None \<longrightarrow> own r ''bookmarked'' = Some (JBool False))"
    if "status s = Some r" for r
    using that by (rule status_shape) (simp add: status_literal_own absent_undefined)
  then show "\<forall>r. status s = Some r \<longrightarrow>
      own r ''plain_content'' = Some JNull \<and>
      own r ''card'' = Some JNull \<and>
      own r ''pinned'' = Some (JBool False) \<and>
      own r ''emoji_reactions'' = Some (JArr []) \<and>
      own r ''quote'' = Some (JBool False) \<and>
      own r ''bookmarked'' =
        Some (if truthy (property s ''bookmarked'') then property s ''bookmarked'' else JBool False) \<and>
      (own s ''bookmarked'' = None \<longrightarrow> own r ''bookmarked'' = Some (JBool False))"
    by blast
qed

theorem status_constants_witness:
  "Status_typed (JObj [(''id'', JStr ''1''), (''account'', JObj []), (''reblog'', JNull)]) \<and>
   (\<exists>r. status (JObj [(''id'', JStr ''1''), (''account'', JObj []), (''reblog'', JNull)]) = Some r \<and>
      own r ''bookmarked'' = Some (JBool False) \<and> own r ''quote'' = Some (JBool False) \<and>
      own r ''card'' = Some JNull)"
proof -
  have t: "Status_typed (JObj [(''id'', JStr ''1''), (''account'', JObj []), (''reblog'', JNull)])"
    by (rule Status_typed.plain) simp_all
  from status_constants [of "JObj [(''id'', JStr ''1''), (''account'', JObj []), (''reblog'', JNull)]"] t
  show ?thesis
    by auto
qed

section \<open>The array guards\<close>

lemma context_entity_shape:
  assumes "context_entity c = Some r"
  obtains a d where "map_array status (property c ''ancestors'') = Some a"
    "map_array status (property c ''descendants'') = Some d"
    "r = JObj [(''ancestors'', a), (''descendants'', d)]"
  using assms by (auto simp: context_entity_def split: if_splits Option.bind_splits)

lemma results_shape:
  assumes "results x = Some r"
  obtains a s h where "map_array account (property x ''accounts'') = Some a"
    "map_array status (property x ''statuses'') = Some s"
    "map_array (\<lambda>h. Some (tag h)) (property x ''hashtags'') = Some h"
    "r = JObj [(''accounts'', a), (''statuses'', s), (''hashtags'', h)]"
  using assms by (auto simp: results_def split: if_splits Option.bind_splits)

lemma conversation_shape:
  assumes "conversation v = Some r"
  obtains a l where "map_array account (property v ''accounts'') = Some a"
    "r = JObj [(''id'', property v ''id''), (''accounts'', a), (''last_status'', l),
               (''unread'', property v ''unread'')]"
  using assms by (auto simp: conversation_def split: if_splits Option.bind_splits)

lemma status_arrays:
  assumes "status s = Some r"
  shows "\<not> isArray (property s ''emojis'') \<Longrightarrow> own r ''emojis'' = Some (JArr [])"
    and "\<not> isArray (property s ''media_attachments'') \<Longrightarrow> own r ''media_attachments'' = Some (JArr [])"
    and "\<not> isArray (property s ''mentions'') \<Longrightarrow> own r ''mentions'' = Some (JArr [])"
    and "own r ''tags'' = Some (property s ''tags'')"
  using assms by (auto elim!: status_shape simp: status_literal_own)

lemma those_map_returns: "(\<forall>x \<in> set xs. \<exists>y. f x = Some y) \<Longrightarrow> \<exists>ys. those (map f xs) = Some ys"
  by (induction xs) auto

lemma map_array_returns:
  assumes "\<forall>x \<in> set (elements v). \<exists>y. f x = Some y"
  shows "\<exists>r. map_array f v = Some r"
proof (cases v)
  case (JArr xs)
  with assms have "\<exists>ys. those (map f xs) = Some ys"
    by (simp add: those_map_returns)
  with JArr show ?thesis
    by (auto simp: map_array_def)
qed (simp_all add: map_array_def)

lemma statuses_return:
  "\<forall>x \<in> set (elements v). Status_typed x \<Longrightarrow> \<exists>r. map_array status v = Some r"
  by (rule map_array_returns) (simp add: Status_typed_returns)

lemma accounts_return:
  "\<forall>x \<in> set (elements v). \<not> nullish x \<Longrightarrow> \<exists>r. map_array account v = Some r"
  by (rule map_array_returns) (simp add: account_Some)

lemma context_entity_returns:
  assumes "\<not> nullish c"
    and "\<forall>x \<in> set (elements (property c ''ancestors'')). Status_typed x"
    and "\<forall>x \<in> set (elements (property c ''descendants'')). Status_typed x"
  shows "\<exists>r. context_entity c = Some r"
proof -
  from assms(2) obtain a where a: "map_array status (property c ''ancestors'') = Some a"
    using statuses_return by blast
  from assms(3) obtain d where d: "map_array status (property c ''descendants'') = Some d"
    using statuses_return by blast
  from assms(1) a d show ?thesis
    by (simp add: context_entity_def)
qed

lemma results_returns:
  assumes "\<not> nullish x"
    and "\<forall>a \<in> set (elements (property x ''accounts'')). \<not> nullish a"
    and "\<forall>s \<in> set (elements (property x ''statuses'')). Status_typed s"
  shows "\<exists>r. results x = Some r"
proof -
  from assms(2) obtain a where a: "map_array account (property x ''accounts'') = Some a"
    using accounts_return by blast
  from assms(3) obtain s where s: "map_array status (property x ''statuses'') = Some s"
    using statuses_return by blast
  from assms(1) a s show ?thesis
    by (simp add: results_def map_array_total')
qed

lemma conversation_returns:
  assumes "\<not> nullish v"
    and "\<forall>a \<in> set (elements (property v ''accounts'')). \<not> nullish a"
    and "truthy (property v ''last_status'') \<longrightarrow> Status_typed (property v ''last_status'')"
  shows "\<exists>r. conversation v = Some r"
proof -
  from assms(2) obtain a where a: "map_array account (property v ''accounts'') = Some a"
    using accounts_return by blast
  obtain l where l: "(if truthy (property v ''last_status'') then status (property v ''last_status'')
      else Some JNull) = Some l"
    using assms(3) Status_typed_returns by (cases "truthy (property v ''last_status'')") auto
  from assms(1) a l show ?thesis
    by (simp add: conversation_def)
qed

text \<open>
  Claim C6, as the code has it. The guard \<^verbatim>\<open>Array.isArray(v) ? v.map(...) : []\<close>
  yields the empty array on every value that is not an array, whatever the element
  converter, and does not throw. It stands before every field that is converted
  element by element: \<^verbatim>\<open>ancestors\<close> and \<^verbatim>\<open>descendants\<close> of a context,
  \<^verbatim>\<open>accounts\<close>, \<^verbatim>\<open>statuses\<close> and \<^verbatim>\<open>hashtags\<close> of results, \<^verbatim>\<open>accounts\<close> of
  a conversation, \<^verbatim>\<open>emojis\<close>, \<^verbatim>\<open>media_attachments\<close> and \<^verbatim>\<open>mentions\<close> of a
  status. Each of the four converters returns on an input whose nested accounts and
  statuses are accounts and statuses, whether or not any of these fields is an array
  (\<open>elements\<close> of a value that is not an array is empty, so nothing is asked of
  it), and in whatever it returns such a field is the empty array when the backend
  value is absent or not an array. The \<^verbatim>\<open>tags\<close> of a status are copied as they
  are.
\<close>

theorem array_guards:
  "(\<forall>f v. \<not> isArray v \<longrightarrow> map_array f v = Some (JArr [])) \<and>
   (\<not> nullish c \<longrightarrow>
    (\<forall>a \<in> set (elements (property c ''ancestors'')). Status_typed a) \<longrightarrow>
    (\<forall>d \<in> set (elements (property c ''descendants'')). Status_typed d) \<longrightarrow>
      (\<exists>r. context_entity c = Some r)) \<and>
   (\<forall>r. context_entity c = Some r \<longrightarrow>
      (\<not> isArray (property c ''ancestors'') \<longrightarrow> own r ''ancestors'' = Some (JArr [])) \<and>
      (\<not> isArray (property c ''descendants'') \<longrightarrow> own r ''descendants'' = Some (JArr []))) \<and>
   (\<not> nullish c \<longrightarrow> \<not> isArray (property c ''ancestors'') \<longrightarrow>
    \<not> isArray (property c ''descendants'') \<longrightarrow>
      context_entity c = Some (JObj [(''ancestors'', JArr []), (''descendants'', JArr [])])) \<and>
   (\<not> nullish x \<longrightarrow>
    (\<forall>a \<in> set (elements (property x ''accounts'')). \<not> nullish a) \<longrightarrow>
    (\<forall>s \<in> set (elements (property x ''statuses'')). Status_typed s) \<longrightarrow>
      (\<exists>r. results x = Some r)) \<and>
   (\<forall>r. results x = Some r \<longrightarrow>
      (\<not> isArray (property x ''accounts'') \<longrightarrow> own r ''accounts'' = Some (JArr [])) \<and>
      (\<not> isArray (property x ''statuses'') \<longrightarrow> own r ''statuses'' = Some (JArr [])) \<and>
      (\<not> isArray (property x ''hashtags'') \<longrightarrow> own r ''hashtags'' = Some (JArr []))) \<and>
   (\<not> nullish x \<longrightarrow> \<not> isArray (property x ''accounts'') \<longrightarrow>
    \<not> isArray (property x ''statuses'') \<longrightarrow> \<not> isArray (property x ''hashtags'') \<longrightarrow>
      results x =
        Some (JObj [(''accounts'', JArr []), (''statuses'', JArr []), (''hashtags'', JArr [])])) \<and>
   (\<not> nullish v \<longrightarrow>
    (\<forall>a \<in> set (elements (property v ''accounts'')). \<not> nullish a) \<longrightarrow>
    (truthy (property v ''last_status'') \<longrightarrow> Status_typed (property v ''last_status'')) \<longrightarrow>
      (\<exists>r. conversation v = Some r)) \<and>
   (\<forall>r. conversation v = Some r \<longrightarrow> \<not> isArray (property v ''accounts'') \<longrightarrow>
      own r ''accounts'' = Some (JArr [])) \<and>
   (Status_typed s \<longrightarrow> (\<exists>r. status s = Some r)) \<and>
   (\<forall>r. status s = Some r \<longrightarrow>
      (\<not> isArray (property s ''emojis'') \<longrightarrow> own r ''emojis'' = Some (JArr [])) \<and>
      (\<not> isArray (property s ''media_attachments'') \<longrightarrow>
         own r ''media_attachments'' = Some (JArr [])) \<and>
      (\<not> isArray (property s ''mentions'') \<longrightarrow> own r ''mentions'' = Some (JArr [])) \<and>
      own r ''tags'' = Some (property s ''tags''))"
proof -
  have guard: "\<forall>f v. \<not> isArray v \<longrightarrow> map_array f v = Some (JArr [])"
    by (simp add: map_array_not_array)
  have c1: "\<not> nullish c \<longrightarrow>
    (\<forall>a \<in> set (elements (property c ''ancestors'')). Status_typed a) \<longrightarrow>
    (\<forall>d \<in> set (elements (property c ''descendants'')). Status_typed d) \<longrightarrow>
      (\<exists>r. context_entity c = Some r)"
    using context_entity_returns [of c] by simp
  have c2: "\<forall>r. context_entity c = Some r \<longrightarrow>
      (\<not> isArray (property c ''ancestors'') \<longrightarrow> own r ''ancestors'' = Some (JArr [])) \<and>
      (\<not> isArray (property c ''descendants'') \<longrightarrow> own r ''descendants'' = Some (JArr []))"
    by (intro allI impI conjI; erule context_entity_shape; simp add: map_array_not_array)
  have c3: "\<not> nullish c \<longrightarrow> \<not> isArray (property c ''ancestors'') \<longrightarrow>
    \<not> isArray (property c ''descendants'') \<longrightarrow>
      context_entity c = Some (JObj [(''ancestors'', JArr []), (''descendants'', JArr [])])"
    by (simp add: context_entity_def map_array_not_array)
  have r1: "\<not> nullish x \<longrightarrow>
    (\<forall>a \<in> set (elements (property x ''accounts'')). \<not> nullish a) \<longrightarrow>
    (\<forall>s \<in> set (elements (property x ''statuses'')). Status_typed s) \<longrightarrow>
      (\<exists>r. results x = Some r)"
    using results_returns [of x] by simp
  have r2: "\<forall>r. results x = Some r \<longrightarrow>
      (\<not> isArray (property x ''accounts'') \<longrightarrow> own r ''accounts'' = Some (JArr [])) \<and>
      (\<not> isArray (property x ''statuses'') \<longrightarrow> own r ''statuses'' = Some (JArr [])) \<and>
      (\<not> isArray (property x ''hashtags'') \<longrightarrow> own r ''hashtags'' = Some (JArr []))"
    by (intro allI impI conjI; erule results_shape; simp add: map_array_not_array)
  have r3: "\<not> nullish x \<longrightarrow> \<not> isArray (property x ''accounts'') \<longrightarrow>
    \<not> isArray (property x ''statuses'') \<longrightarrow> \<not> isArray (property x ''hashtags'') \<longrightarrow>
      results x =
        Some (JObj [(''accounts'', JArr []), (''statuses'', JArr []), (''hashtags'', JArr [])])"
    by (simp add: results_def map_array_not_array)
  have v1: "\<not> nullish v \<longrightarrow>
    (\<forall>a \<in> set (elements (property v ''accounts'')). \<not> nullish a) \<longrightarrow>
    (truthy (property v ''last_status'') \<longrightarrow> Status_typed (property v ''last_status'')) \<longrightarrow>
      (\<exists>r. conversation v = Some r)"
    using conversation_returns [of v] by simp
  have v2: "\<forall>r. conversation v = Some r \<longrightarrow> \<not> isArray (property v ''accounts'') \<longrightarrow>
      own r ''accounts'' = Some (JArr [])"
    by (intro allI impI; erule conversation_shape; simp add: map_array_not_array)
  have s1: "Status_typed s \<longrightarrow> (\<exists>r. status s = Some r)"
    by (simp add: Status_typed_returns)
  have s2: "\<forall>r. status s = Some r \<longrightarrow>
      (\<not> isArray (property s ''emojis'') \<longrightarrow> own r ''emojis'' = Some (JArr [])) \<and>
      (\<not> isArray (property s ''media_attachments'') \<longrightarrow>
         own r ''media_attachments'' = Some (JArr [])) \<and>
      (\<not> isArray (property s ''mentions'') \<longrightarrow> own r ''mentions'' = Some (JArr [])) \<and>
      own r ''tags'' = Some (property s ''tags'')"
    by (intro allI impI conjI; (erule (1) status_arrays | erule status_arrays(4)))
  show ?thesis
    by (intro conjI guard c1 c2 c3 r1 r2 r3 v1 v2 s1 s2)
qed

theorem array_guards_witness:
  "(\<exists>r. context_entity (JObj [(''ancestors'', JNull),
            (''descendants'', JArr [JObj [(''account'', JObj [])]])]) = Some r \<and>
        own r ''ancestors'' = Some (JArr [])) \<and>
   results (JObj [(''accounts'', JStr ''none''), (''hashtags'', JObj [])]) =
     Some (JObj [(''accounts'', JArr []), (''statuses'', JArr []), (''hashtags'', JArr [])]) \<and>
   (\<exists>r. conversation (JObj [(''id'', JStr ''5''), (''accounts'', JNull)]) = Some r \<and>
        own r ''accounts'' = Some (JArr []))"
proof -
  have t: "Status_typed (JObj [(''account'', JObj [])])"
    by (rule Status_typed.plain) simp_all
  from array_guards
    [of "JObj [(''ancestors'', JNull), (''descendants'', JArr [JObj [(''account'', JObj [])]])]"
        "JObj [(''accounts'', JStr ''none''), (''hashtags'', JObj [])]"
        "JObj [(''id'', JStr ''5''), (''accounts'', JNull)]" JNull] t
  show ?thesis
    by auto
qed

text \<open>
  Claim C6 as written names \<^verbatim>\<open>Status.tags\<close> among the guarded fields: a status with
  \<^verbatim>\<open>tags: null\<close> converts to a status with \<^verbatim>\<open>tags: null\<close>, not with the empty
  array.
\<close>

theorem status_tags_not_guarded:
  "\<not> isArray (property (JObj [(''account'', JObj []), (''tags'', JNull)]) ''tags'') \<and>
   status (JObj [(''account'', JObj []), (''tags'', JNull)]) \<noteq> None \<and>
   own (the (status (JObj [(''account'', JObj []), (''tags'', JNull)]))) ''tags'' = Some JNull \<and>
   own (the (status (JObj [(''account'', JObj []), (''tags'', JNull)]))) ''tags'' \<noteq> Some (JArr [])"
  by (simp add: status.simps account_def map_array_def status_literal_own)

section \<open>The API client\<close>














text \<open>
  Claim C1 asks that a request of any verb method that fails because the client was
  cancelled rejects with \<^verbatim>\<open>RequestCanceledError\<close>. A client is constructed, a request
  is issued, \<^verbatim>\<open>cancel()\<close> is called, the request settles: \<^verbatim>\<open>post\<close> and
  \<^verbatim>\<open>postForm\<close> reject with the CanceledError of the transport, where \<^verbatim>\<open>put\<close>
  rejects with \<^verbatim>\<open>RequestCanceledError\<close>.
\<close>

theorem post_cancel_not_translated:
  "(let (cl, w1) = Client_new ''https://pixelfed.social'' None \<lparr>controllers = [], defaults_signal = None\<rparr>;
        w2 = cancel cl w1
    in post (transport ok_net w1 w2) cl ''/api/v1/statuses'' (JObj []) []
         = Inl (Rethrown (CanceledError ''canceled'')) \<and>
       postForm (transport ok_net w1 w2) cl ''/api/v1/statuses'' (JObj []) []
         = Inl (Rethrown (CanceledError ''canceled'')) \<and>
       put (transport ok_net w1 w2) cl ''/api/v1/statuses'' (JObj []) []
         = Inl (RequestCanceledError ''canceled''))"
  by (simp add: Client_new_def cancel_def post_def postForm_def put_def
      post_request_def postForm_request_def put_request_def authorize_def transport_def
      axios_settle_def axios_issue_def aborted_def no_catch_def catch_cancel_def then_response_def)

text \<open>
  Claim C2 asks that \<^verbatim>\<open>cancel()\<close> on one client leaves the requests of every other
  client alone. Client \<open>b\<close> is constructed, then client \<open>a\<close>, whose constructor
  overwrites \<^verbatim>\<open>axios.defaults.signal\<close>; \<open>b\<close> issues a request. Left alone it
  resolves; when \<open>a\<close> is cancelled before it settles it rejects as cancelled; and
  cancelling \<open>b\<close> itself does not cancel it.
\<close>

theorem cancel_crosses_instances:
  "(let (b, w1) = Client_new ''https://b.example'' None \<lparr>controllers = [], defaults_signal = None\<rparr>;
        (a, w2) = Client_new ''https://a.example'' None w1
    in abortController a \<noteq> abortController b \<and>
       get (transport ok_net w2 w2) b ''/api/v1/instance'' (JObj []) [] False =
         Inr \<lparr>res_data = JObj [(''ok'', JBool True)], res_status = 200,
              res_statusText = ''OK'', res_headers = []\<rparr> \<and>
       get (transport ok_net w2 (cancel a w2)) b ''/api/v1/instance'' (JObj []) [] False =
         Inl (RequestCanceledError ''canceled'') \<and>
       get (transport ok_net w2 (cancel b w2)) b ''/api/v1/instance'' (JObj []) [] False =
         Inr \<lparr>res_data = JObj [(''ok'', JBool True)], res_status = 200,
              res_statusText = ''OK'', res_headers = []\<rparr>)"
  by (simp add: Client_new_def cancel_def get_def get_request_def authorize_def transport_def ok_net_def
      axios_settle_def axios_issue_def aborted_def catch_cancel_def then_response_def)

end
